theory Spec2Isabelle
  imports Complex_Main
begin

section \<open>Data model\<close>

text \<open>
  The analysed program (\<^verbatim>\<open>src/data_analyzer.py\<close>) works on pandas data frames read
  from CSV files. A cell of a frame is a number, a piece of text, or missing
  (pandas' NaN marker, what \<^verbatim>\<open>isna()\<close> tests). A column carries its pandas dtype:
  \<^verbatim>\<open>select_dtypes(include=[np.number])\<close> looks at the dtype, whereas arithmetic on
  a column fails exactly when it meets a text value.

  Numbers are modelled as mathematical reals: rounding and overflow of IEEE doubles
  are outside the model. The special values that the program can produce from finite
  data (a division by zero) are kept.
\<close>

datatype cell = Num real | Txt string | Missing

datatype dtype = Numeric | Object

record column =
  dtype :: dtype
  cells :: "cell list"

record table =
  nrows :: nat
  cols :: "(string \<times> column) list"

text \<open>\<^verbatim>\<open>df.columns\<close>, and the invariants of a data frame: column labels are distinct (as
  \<^verbatim>\<open>read_csv\<close> makes them), every column has one cell per row, and a column of
  numeric dtype holds no text.\<close>

definition columns :: "table \<Rightarrow> string list" where
  "columns T = map fst (cols T)"

definition has_text :: "column \<Rightarrow> bool" where
  "has_text c = list_ex (\<lambda>e. case e of Txt s \<Rightarrow> True | _ \<Rightarrow> False) (cells c)"

definition wf_column :: "nat \<Rightarrow> column \<Rightarrow> bool" where
  "wf_column n c = (length (cells c) = n \<and> (dtype c = Numeric \<longrightarrow> \<not> has_text c))"

definition wf_table :: "table \<Rightarrow> bool" where
  "wf_table T = (distinct (columns T) \<and> list_all (\<lambda>nc. wf_column (nrows T) (snd nc)) (cols T))"

text \<open>Python exceptions, as values. The names follow the error taxonomy of the
  specification: \<open>NotLoaded\<close>, \<open>NoColumnsFound\<close> and \<open>InsufficientColumns\<close> are the
  three \<^verbatim>\<open>ValueError\<close>s the program raises itself; \<open>TypeError\<close>, \<open>KeyError\<close>,
  \<open>IndexError\<close> and \<open>ConversionError\<close> come out of the libraries (arithmetic on
  text, a missing column label, a position outside a matrix, text that cannot be
  converted to float).\<close>

datatype error = NotLoaded | NoColumnsFound | InsufficientColumns
  | TypeError | KeyError | IndexError | ConversionError

subsection \<open>Floating-point results\<close>

text \<open>A computed float is a finite number, an infinity or NaN. Division follows
  numpy: a non-zero number divided by zero is an infinity, zero divided by zero is NaN,
  and every comparison with NaN is false.\<close>

datatype pyfloat = Fin real | PInf | NInf | NaN

fun pf_div :: "real \<Rightarrow> real \<Rightarrow> pyfloat" where
  "pf_div a b =
     (if b \<noteq> 0 then Fin (a / b)
      else if a = 0 then NaN
      else if 0 < a then PInf else NInf)"

fun pf_neg :: "pyfloat \<Rightarrow> pyfloat" where
  "pf_neg (Fin a) = Fin (- a)"
| "pf_neg PInf = NInf"
| "pf_neg NInf = PInf"
| "pf_neg NaN = NaN"

fun pf_add :: "pyfloat \<Rightarrow> pyfloat \<Rightarrow> pyfloat" where
  "pf_add (Fin a) (Fin b) = Fin (a + b)"
| "pf_add NaN y = NaN"
| "pf_add x NaN = NaN"
| "pf_add PInf NInf = NaN"
| "pf_add NInf PInf = NaN"
| "pf_add PInf y = PInf"
| "pf_add x PInf = PInf"
| "pf_add NInf y = NInf"
| "pf_add x NInf = NInf"

definition pf_sub :: "pyfloat \<Rightarrow> pyfloat \<Rightarrow> pyfloat" where
  "pf_sub x y = pf_add x (pf_neg y)"

text \<open>Multiplication by a finite constant (all the program needs).\<close>

fun pf_scale :: "pyfloat \<Rightarrow> real \<Rightarrow> pyfloat" where
  "pf_scale (Fin a) k = Fin (a * k)"
| "pf_scale NaN k = NaN"
| "pf_scale PInf k = (if k = 0 then NaN else if 0 < k then PInf else NInf)"
| "pf_scale NInf k = (if k = 0 then NaN else if 0 < k then NInf else PInf)"

fun pf_abs :: "pyfloat \<Rightarrow> pyfloat" where
  "pf_abs (Fin a) = Fin \<bar>a\<bar>"
| "pf_abs PInf = PInf"
| "pf_abs NInf = PInf"
| "pf_abs NaN = NaN"

text \<open>\<open>pf_gt x t\<close> is \<^verbatim>\<open>x > t\<close> for a float \<open>x\<close> and a finite threshold \<open>t\<close>.\<close>

fun pf_gt :: "pyfloat \<Rightarrow> real \<Rightarrow> bool" where
  "pf_gt (Fin a) t = (t < a)"
| "pf_gt PInf t = True"
| "pf_gt NInf t = False"
| "pf_gt NaN t = False"

subsection \<open>Library operations on one column\<close>

text \<open>\<^verbatim>\<open>isna().sum()\<close> of a column.\<close>

definition isna_sum :: "column \<Rightarrow> nat" where
  "isna_sum c = length (filter (\<lambda>e. e = Missing) (cells c))"

text \<open>The non-missing numbers of a column, in row order.\<close>

fun nums :: "cell list \<Rightarrow> real list" where
  "nums [] = []"
| "nums (Num x # es) = x # nums es"
| "nums (e # es) = nums es"

text \<open>\<^verbatim>\<open>Series.median()\<close>: missing entries are skipped; the median of no value at all
  is NaN; a text value makes pandas raise \<^verbatim>\<open>TypeError\<close>.\<close>

definition median :: "real list \<Rightarrow> pyfloat" where
  "median vs =
     (let s = sort vs; n = length s
      in if n = 0 then NaN
         else if odd n then Fin (s ! (n div 2))
         else Fin ((s ! (n div 2 - 1) + s ! (n div 2)) / 2))"

definition series_median :: "column \<Rightarrow> error + pyfloat" where
  "series_median c = (if has_text c then Inl TypeError else Inr (median (nums (cells c))))"

text \<open>\<^verbatim>\<open>fillna(v)\<close>: every missing cell becomes \<open>v\<close>; filling with NaN changes nothing.
  (The median of finite numbers is finite or NaN.)\<close>

definition fillna :: "pyfloat \<Rightarrow> column \<Rightarrow> column" where
  "fillna v c =
     (case v of
        Fin x \<Rightarrow> c\<lparr>cells := map (\<lambda>e. if e = Missing then Num x else e) (cells c)\<rparr>
      | _ \<Rightarrow> c)"

text \<open>\<^verbatim>\<open>series < k\<close>: the boolean mask of the cells below \<open>k\<close>. A missing cell
  compares false; comparing text with a number raises \<^verbatim>\<open>TypeError\<close>.\<close>

definition series_lt :: "column \<Rightarrow> real \<Rightarrow> error + bool list" where
  "series_lt c k =
     (if has_text c then Inl TypeError
      else Inr (map (\<lambda>e. case e of Num x \<Rightarrow> x < k | _ \<Rightarrow> False) (cells c)))"

text \<open>\<^verbatim>\<open>df.loc[mask, col] = v\<close> on the column \<open>col\<close>.\<close>

definition loc_assign :: "bool list \<Rightarrow> real \<Rightarrow> column \<Rightarrow> column" where
  "loc_assign m v c = c\<lparr>cells := map2 (\<lambda>b e. if b then Num v else e) m (cells c)\<rparr>"

subsection \<open>Library operations on a frame\<close>

text \<open>\<^verbatim>\<open>df[col]\<close> for one label.\<close>

definition getcol :: "table \<Rightarrow> string \<Rightarrow> error + column" where
  "getcol df n = (case map_of (cols df) n of None \<Rightarrow> Inl KeyError | Some c \<Rightarrow> Inr c)"

text \<open>\<^verbatim>\<open>df[names]\<close> for a list of labels: the named columns in the order asked for.\<close>

fun getitem_cols :: "(string \<times> column) list \<Rightarrow> string list \<Rightarrow> error + (string \<times> column) list" where
  "getitem_cols cs [] = Inr []"
| "getitem_cols cs (n # ns) =
     (case map_of cs n of
        None \<Rightarrow> Inl KeyError
      | Some c \<Rightarrow>
          (case getitem_cols cs ns of
             Inl e \<Rightarrow> Inl e
           | Inr f \<Rightarrow> Inr ((n, c) # f)))"

definition getitem :: "table \<Rightarrow> string list \<Rightarrow> error + table" where
  "getitem df ns =
     (case getitem_cols (cols df) ns of
        Inl e \<Rightarrow> Inl e
      | Inr f \<Rightarrow> Inr \<lparr>nrows = nrows df, cols = f\<rparr>)"

text \<open>\<^verbatim>\<open>df[n] = c\<close>: an existing column is overwritten where it stands, a new one is
  appended as the last column.\<close>

fun setitem_cols :: "(string \<times> column) list \<Rightarrow> string \<Rightarrow> column \<Rightarrow> (string \<times> column) list" where
  "setitem_cols [] n c = [(n, c)]"
| "setitem_cols ((m, d) # cs) n c =
     (if m = n then (n, c) # cs else (m, d) # setitem_cols cs n c)"

definition setitem :: "table \<Rightarrow> string \<Rightarrow> column \<Rightarrow> table" where
  "setitem df n c = df\<lparr>cols := setitem_cols (cols df) n c\<rparr>"

text \<open>\<^verbatim>\<open>scipy.stats.zscore(frame, nan_policy='omit')\<close>, column by column (axis 0):
  the mean and the population standard deviation (\<^verbatim>\<open>ddof=0\<close>) are taken over
  the non-missing values of the column; a missing cell has the z-score NaN, and so has
  every cell of a column with no value or with standard deviation zero. Text in the
  frame makes the arithmetic raise \<^verbatim>\<open>TypeError\<close>. The result is listed by column.\<close>

definition mean :: "real list \<Rightarrow> real" where
  "mean vs = sum_list vs / real (length vs)"

definition pstdev :: "real list \<Rightarrow> real" where
  "pstdev vs = sqrt (sum_list (map (\<lambda>x. (x - mean vs)\<^sup>2) vs) / real (length vs))"

definition zscore_col :: "column \<Rightarrow> pyfloat list" where
  "zscore_col c =
     (let vs = nums (cells c)
      in if vs = [] then map (\<lambda>e. NaN) (cells c)
         else map (\<lambda>e. case e of Num x \<Rightarrow> pf_div (x - mean vs) (pstdev vs) | _ \<Rightarrow> NaN) (cells c))"

definition zscore :: "table \<Rightarrow> error + pyfloat list list" where
  "zscore df =
     (if list_ex (\<lambda>nc. has_text (snd nc)) (cols df) then Inl TypeError
      else Inr (map (\<lambda>nc. zscore_col (snd nc)) (cols df)))"

text \<open>\<^verbatim>\<open>(m).any(axis=1)\<close> for a boolean matrix listed by column, over \<open>n\<close> rows.\<close>

definition any_axis1 :: "nat \<Rightarrow> bool list list \<Rightarrow> bool list" where
  "any_axis1 n m = foldl (\<lambda>acc b. map2 (\<or>) acc b) (replicate n False) m"

text \<open>Pearson correlation of two columns as \<^verbatim>\<open>DataFrame.corr()\<close> computes it
  (method \<^verbatim>\<open>'pearson'\<close>, \<^verbatim>\<open>min_periods=1\<close>): over the rows where both
  cells are present; NaN when there is no such row or when the divisor
  \<open>sqrt (ssx * ssy)\<close> is zero. pandas accumulates the sums in one pass (Welford);
  over the reals that is the two-pass formula below.\<close>

fun pairs :: "cell list \<Rightarrow> cell list \<Rightarrow> (real \<times> real) list" where
  "pairs (Num x # xs) (Num y # ys) = (x, y) # pairs xs ys"
| "pairs (a # xs) (b # ys) = pairs xs ys"
| "pairs xs ys = []"

definition pearson :: "column \<Rightarrow> column \<Rightarrow> pyfloat" where
  "pearson c d =
     (let ps = pairs (cells c) (cells d); xs = map fst ps; ys = map snd ps
      in if length ps < 1 then NaN
         else
           let ssx = sum_list (map (\<lambda>x. (x - mean xs)\<^sup>2) xs);
               ssy = sum_list (map (\<lambda>y. (y - mean ys)\<^sup>2) ys);
               covxy = sum_list (map (\<lambda>(x, y). (x - mean xs) * (y - mean ys)) ps);
               divisor = sqrt (ssx * ssy)
           in if divisor \<noteq> 0 then Fin (covxy / divisor) else NaN)"

text \<open>A correlation matrix: its row and column labels and its entries, row by row.\<close>

record corr_matrix =
  labels :: "string list"
  entries :: "pyfloat list list"

definition corr_numeric :: "(string \<times> column) list \<Rightarrow> corr_matrix" where
  "corr_numeric f =
     \<lparr>labels = map fst f,
      entries = map (\<lambda>nc. map (\<lambda>md. pearson (snd nc) (snd md)) f) f\<rparr>"

text \<open>\<^verbatim>\<open>DataFrame.corr()\<close> on a frame that may hold non-numeric columns depends on the
  pandas release: from 2.0 on (\<^verbatim>\<open>numeric_only=False\<close>) text that cannot be
  converted to float raises \<^verbatim>\<open>ValueError\<close>; before, columns of non-numeric dtype
  were dropped silently. Both behaviours are modelled.\<close>

datatype pandas_api = Raise_on_text | Drop_non_numeric

definition corr :: "pandas_api \<Rightarrow> table \<Rightarrow> error + corr_matrix" where
  "corr api df =
     (case api of
        Raise_on_text \<Rightarrow>
          if list_ex (\<lambda>nc. has_text (snd nc)) (cols df) then Inl ConversionError
          else Inr (corr_numeric (cols df))
      | Drop_non_numeric \<Rightarrow>
          Inr (corr_numeric (filter (\<lambda>nc. dtype (snd nc) = Numeric) (cols df))))"

text \<open>\<^verbatim>\<open>m.iloc[i, j]\<close>.\<close>

definition iloc :: "corr_matrix \<Rightarrow> nat \<Rightarrow> nat \<Rightarrow> error + pyfloat" where
  "iloc m i j =
     (if i < length (entries m) \<and> j < length (entries m ! i) then Inr (entries m ! i ! j)
      else Inl IndexError)"

section \<open>The analyzer and its result store\<close>

record missing_report =
  missing_count :: "(string \<times> nat) list"
  missing_percent :: "(string \<times> pyfloat) list"
  critical_columns :: "string list"
  overall_completeness :: pyfloat
  threshold :: real

record outlier_report =
  outlier_mask :: "bool list"
  outlier_count :: nat
  percentage :: pyfloat

text \<open>The dictionary \<^verbatim>\<open>analysis_results\<close>, with its keys \<^verbatim>\<open>'missing_values'\<close> and
  \<^verbatim>\<open>'outliers'\<close>; a key that was never written is \<open>None\<close>.\<close>

record results =
  missing_values :: "missing_report option"
  outliers :: "outlier_report option"

record analyzer =
  raw_data :: "table option"
  cleaned_data :: "table option"
  analysis_results :: results

text \<open>The state after \<^verbatim>\<open>__init__\<close> and \<^verbatim>\<open>load_data\<close>.\<close>

definition loaded :: "table \<Rightarrow> analyzer" where
  "loaded T = \<lparr>raw_data = Some T, cleaned_data = None,
     analysis_results = \<lparr>missing_values = None, outliers = None\<rparr>\<rparr>"

subsection \<open>\<^verbatim>\<open>SolarDataAnalyzer.analyze_missing_values\<close>\<close>

definition analyze_missing_values ::
  "analyzer \<Rightarrow> real \<Rightarrow> error + (missing_report \<times> analyzer)" where
  "analyze_missing_values self thr =
     (case raw_data self of
        None \<Rightarrow> Inl NotLoaded
      | Some df \<Rightarrow>
          let mcount = map (\<lambda>(n, c). (n, isna_sum c)) (cols df);
              mpercent = map (\<lambda>(n, k). (n, pf_scale (pf_div (real k) (real (nrows df))) 100)) mcount;
              critical = map fst (filter (\<lambda>(n, p). pf_gt p thr) mpercent);
              overall = pf_sub (Fin 100)
                 (pf_scale (pf_div (real (sum_list (map snd mcount)))
                                   (real (nrows df * length (cols df)))) 100);
              result = \<lparr>missing_count = mcount, missing_percent = mpercent,
                        critical_columns = critical, overall_completeness = overall,
                        threshold = thr\<rparr>
          in Inr (result,
                  self\<lparr>analysis_results := (analysis_results self)\<lparr>missing_values := Some result\<rparr>\<rparr>))"

subsection \<open>\<^verbatim>\<open>SolarDataAnalyzer.detect_outliers\<close>\<close>

definition detect_outliers ::
  "analyzer \<Rightarrow> string list \<Rightarrow> real \<Rightarrow> error + (bool list \<times> analyzer)" where
  "detect_outliers self requested z_threshold =
     (case raw_data self of
        None \<Rightarrow> Inl NotLoaded
      | Some df \<Rightarrow>
          let available_cols = filter (\<lambda>col. col \<in> set (columns df)) requested
          in if available_cols = [] then Inl NoColumnsFound
             else
               (case getitem df available_cols of
                  Inl e \<Rightarrow> Inl e
                | Inr sub \<Rightarrow>
                    (case zscore sub of
                       Inl e \<Rightarrow> Inl e
                     | Inr zs \<Rightarrow>
                         let z_scores = map (map pf_abs) zs;
                             mask = any_axis1 (nrows df)
                                      (map (map (\<lambda>z. pf_gt z z_threshold)) z_scores);
                             k = length (filter (\<lambda>b. b) mask);
                             report = \<lparr>outlier_mask = mask, outlier_count = k,
                                percentage = pf_scale (pf_div (real k) (real (nrows df))) 100\<rparr>
                         in Inr (mask,
                              self\<lparr>analysis_results :=
                                (analysis_results self)\<lparr>outliers := Some report\<rparr>\<rparr>))))"

subsection \<open>\<^verbatim>\<open>SolarDataAnalyzer.clean_data\<close>\<close>

definition key_columns :: "string list" where
  "key_columns = [''GHI'', ''DNI'', ''DHI'', ''ModA'', ''ModB'', ''WS'', ''WSgust'',
                  ''Tamb'', ''RH'', ''BP'', ''TModA'', ''TModB'']"

definition non_negative_cols :: "string list" where
  "non_negative_cols = [''GHI'', ''DNI'', ''DHI'', ''ModA'', ''ModB'', ''WS'', ''WSgust'',
                        ''Precipitation'']"

text \<open>The first loop: median imputation of the key columns that are present.\<close>

fun impute :: "table \<Rightarrow> string list \<Rightarrow> error + table" where
  "impute df [] = Inr df"
| "impute df (col # rest) =
     (case getcol df col of
        Inl e \<Rightarrow> Inl e
      | Inr c \<Rightarrow>
          if 0 < isna_sum c then
            (case series_median c of
               Inl e \<Rightarrow> Inl e
             | Inr median_value \<Rightarrow> impute (setitem df col (fillna median_value c)) rest)
          else impute df rest)"

text \<open>The second loop: negative values of the non-negative columns become 0.\<close>

fun clamp :: "table \<Rightarrow> string list \<Rightarrow> error + table" where
  "clamp df [] = Inr df"
| "clamp df (col # rest) =
     (if col \<in> set (columns df) then
        (case getcol df col of
           Inl e \<Rightarrow> Inl e
         | Inr c \<Rightarrow>
             (case series_lt c 0 of
                Inl e \<Rightarrow> Inl e
              | Inr m \<Rightarrow> clamp (setitem df col (loc_assign m 0 c)) rest))
      else clamp df rest)"

text \<open>The marker column \<^verbatim>\<open>df['Cleaning'] = 'Post-Clean'\<close>.\<close>

definition marker_column :: "nat \<Rightarrow> column" where
  "marker_column n = \<lparr>dtype = Object, cells = replicate n (Txt ''Post-Clean'')\<rparr>"

text \<open>\<^verbatim>\<open>clean_data\<close>. Its parameter \<^verbatim>\<open>outlier_mask\<close> is never read by the body and is
  left out. An exception leaves the function without a result.\<close>

definition clean_data :: "analyzer \<Rightarrow> error + (table \<times> analyzer)" where
  "clean_data self =
     (case raw_data self of
        None \<Rightarrow> Inl NotLoaded
      | Some df \<Rightarrow>
          let available_key_cols = filter (\<lambda>col. col \<in> set (columns df)) key_columns
          in (case impute df available_key_cols of
                Inl e \<Rightarrow> Inl e
              | Inr df1 \<Rightarrow>
                  (case clamp df1 non_negative_cols of
                     Inl e \<Rightarrow> Inl e
                   | Inr df2 \<Rightarrow>
                       let cleaned = setitem df2 ''Cleaning'' (marker_column (nrows df2))
                       in Inr (cleaned, self\<lparr>cleaned_data := Some cleaned\<rparr>))))"

subsection \<open>\<^verbatim>\<open>DataQualityAssessor\<close>\<close>

record quality =
  completeness :: pyfloat
  outlier_rate :: pyfloat
  quality_score :: pyfloat

definition assess_completeness :: "analyzer \<Rightarrow> pyfloat" where
  "assess_completeness a =
     (case missing_values (analysis_results a) of
        Some m \<Rightarrow> overall_completeness m
      | None \<Rightarrow> Fin 0)"

definition assess_outlier_rate :: "analyzer \<Rightarrow> pyfloat" where
  "assess_outlier_rate a =
     (case outliers (analysis_results a) of
        Some r \<Rightarrow> percentage r
      | None \<Rightarrow> Fin 0)"

definition get_quality_score :: "analyzer \<Rightarrow> quality" where
  "get_quality_score a =
     (let c = assess_completeness a;
          r = assess_outlier_rate a;
          score = pf_add (pf_scale c (7 / 10)) (pf_scale (pf_sub (Fin 100) r) (3 / 10))
      in \<lparr>completeness = c, outlier_rate = r, quality_score = score\<rparr>)"

subsection \<open>\<^verbatim>\<open>CorrelationAnalyzer\<close>\<close>

text \<open>The object holds one frame, \<^verbatim>\<open>self.data\<close>; it is the argument \<open>data\<close> below.\<close>

definition analyze_correlations ::
  "pandas_api \<Rightarrow> table \<Rightarrow> string list \<Rightarrow> error + corr_matrix" where
  "analyze_correlations api data requested =
     (let available_cols = filter (\<lambda>col. col \<in> set (columns data)) requested
      in if length available_cols < 2 then Inl InsufficientColumns
         else
           (case getitem data available_cols of
              Inl e \<Rightarrow> Inl e
            | Inr sub \<Rightarrow> corr api sub))"

type_synonym strong_corr = "string \<times> string \<times> pyfloat"

text \<open>The inner loop \<^verbatim>\<open>for j in range(i+1, n)\<close> and the outer loop
  \<^verbatim>\<open>for i in range(n)\<close>, appending to \<^verbatim>\<open>strong_corrs\<close>.\<close>

fun inner_loop ::
  "corr_matrix \<Rightarrow> real \<Rightarrow> nat \<Rightarrow> nat list \<Rightarrow> strong_corr list \<Rightarrow> error + strong_corr list" where
  "inner_loop m t i [] acc = Inr acc"
| "inner_loop m t i (j # js) acc =
     (case iloc m i j of
        Inl e \<Rightarrow> Inl e
      | Inr corr_val \<Rightarrow>
          inner_loop m t i js
            (if pf_gt (pf_abs corr_val) t
             then acc @ [(labels m ! i, labels m ! j, corr_val)]
             else acc))"

fun outer_loop ::
  "corr_matrix \<Rightarrow> real \<Rightarrow> nat list \<Rightarrow> strong_corr list \<Rightarrow> error + strong_corr list" where
  "outer_loop m t [] acc = Inr acc"
| "outer_loop m t (i # is) acc =
     (case inner_loop m t i [Suc i ..< length (labels m)] acc of
        Inl e \<Rightarrow> Inl e
      | Inr acc' \<Rightarrow> outer_loop m t is acc')"

definition select_dtypes_number :: "table \<Rightarrow> string list" where
  "select_dtypes_number df = map fst (filter (\<lambda>nc. dtype (snd nc) = Numeric) (cols df))"

definition get_strong_correlations ::
  "pandas_api \<Rightarrow> table \<Rightarrow> real \<Rightarrow> error + strong_corr list" where
  "get_strong_correlations api data thr =
     (let numeric_cols = select_dtypes_number data
      in (case getitem data numeric_cols of
            Inl e \<Rightarrow> Inl e
          | Inr sub \<Rightarrow>
              (case corr api sub of
                 Inl e \<Rightarrow> Inl e
               | Inr corr_matrix \<Rightarrow>
                   outer_loop corr_matrix thr [0 ..< length (labels corr_matrix)] [])))"

section \<open>Example inputs\<close>

text \<open>The scenario table of the specification: columns GHI, DNI and Country, three
  rows, one missing and one negative GHI value.\<close>

definition scenario :: table where
  "scenario = \<lparr>nrows = 3, cols =
     [(''GHI'', \<lparr>dtype = Numeric, cells = [Num 100, Missing, Num (- 5)]\<rparr>),
      (''DNI'', \<lparr>dtype = Numeric, cells = [Num 50, Num 60, Num 55]\<rparr>),
      (''Country'', \<lparr>dtype = Object, cells = [Txt ''Benin'', Txt ''Togo'', Txt ''Benin'']\<rparr>)]\<rparr>"

text \<open>An analyzer whose store holds a completeness of 100 and an outlier rate of 0.\<close>

definition scored :: analyzer where
  "scored = \<lparr>raw_data = None, cleaned_data = None,
     analysis_results =
       \<lparr>missing_values = Some \<lparr>missing_count = [], missing_percent = [], critical_columns = [],
            overall_completeness = Fin 100, threshold = 5\<rparr>,
        outliers = Some \<lparr>outlier_mask = [], outlier_count = 0, percentage = Fin 0\<rparr>\<rparr>\<rparr>"

text \<open>A CSV file with a header line and no data row: one column, zero rows.\<close>

definition header_only :: table where
  "header_only = \<lparr>nrows = 0, cols = [(''GHI'', \<lparr>dtype = Object, cells = []\<rparr>)]\<rparr>"

text \<open>A table with one conspicuous GHI value and one missing GHI cell: its five GHI
  values have mean 1 and standard deviation 2.\<close>
definition spiky :: table where
  "spiky = \<lparr>nrows = 6, cols =
     [(''GHI'', \<lparr>dtype = Numeric, cells = [Num 0, Num 0, Num 0, Num 0, Num 5, Missing]\<rparr>),
      (''Site'', \<lparr>dtype = Object, cells = [Txt ''a'', Txt ''a'', Txt ''a'', Txt ''b'', Txt ''b'', Txt ''b'']\<rparr>)]\<rparr>"

section \<open>Notions used in the statements\<close>

text \<open>The column \<open>n\<close> of the table that \<^verbatim>\<open>clean_data\<close> returns for a freshly loaded \<open>T\<close>.\<close>

definition cleaned_column :: "table \<Rightarrow> string \<Rightarrow> error + cell list" where
  "cleaned_column T n =
     (case clean_data (loaded T) of
        Inl e \<Rightarrow> Inl e
      | Inr (df, a) \<Rightarrow> (case getcol df n of Inl e \<Rightarrow> Inl e | Inr c \<Rightarrow> Inr (cells c)))"

text \<open>A float is a percentage when it is a finite number between 0 and 100.\<close>

definition in_percent_range :: "pyfloat \<Rightarrow> bool" where
  "in_percent_range x = (case x of Fin p \<Rightarrow> 0 \<le> p \<and> p \<le> 100 | _ \<Rightarrow> False)"

text \<open>The share of missing cells of a column over \<open>r\<close> rows, in percent.\<close>

definition percent_of :: "nat \<Rightarrow> column \<Rightarrow> real" where
  "percent_of r c = real (count_list (cells c) Missing) / real r * 100"

text \<open>The z-score of row \<open>i\<close> in a column, in the words of the specification: computed
  from the mean and the standard deviation over the non-missing values of the column;
  a missing cell has none, and there is none when the deviation is zero.\<close>
definition zscore_of :: "column \<Rightarrow> nat \<Rightarrow> real option" where
  "zscore_of c i =
     (case cells c ! i of
        Num x \<Rightarrow>
          (let vs = nums (cells c)
           in if pstdev vs = 0 then None else Some ((x - mean vs) / pstdev vs))
      | _ \<Rightarrow> None)"

text \<open>The outlier count that \<^verbatim>\<open>detect_outliers\<close> stores under \<^verbatim>\<open>'outliers'\<close>.\<close>
definition outlier_count_at :: "analyzer \<Rightarrow> string list \<Rightarrow> real \<Rightarrow> error + nat" where
  "outlier_count_at self requested t =
     (case detect_outliers self requested t of
        Inl e \<Rightarrow> Inl e
      | Inr (flagged, self') \<Rightarrow>
          (case outliers (analysis_results self') of
             None \<Rightarrow> Inl KeyError
           | Some r \<Rightarrow> Inr (outlier_count r)))"

(*PROPERTIES*)
section \<open>Quality score\<close>

text \<open>
  Claim C9. \<^verbatim>\<open>get_quality_score\<close> reads completeness and outlier rate from the result
  store, each being 0.0 when its entry is absent (no failure is possible: the function
  is total), and returns them with the score 0.7 * completeness + 0.3 * (100 - outlier
  rate). For finite inputs in [0, 100] the score lies in [0, 100], and completeness 100
  with outlier rate 0 gives exactly 100. Numbers are reals here, so "exactly" is a
  statement about the formula, not about the rounding of doubles.
\<close>

theorem quality_score_formula:
  assumes "assess_completeness a = Fin c" and "assess_outlier_rate a = Fin r"
  shows "get_quality_score a =
           \<lparr>completeness = Fin c, outlier_rate = Fin r,
            quality_score = Fin (7 / 10 * c + 3 / 10 * (100 - r))\<rparr>
       \<and> assess_completeness a =
           (case missing_values (analysis_results a) of
              None \<Rightarrow> Fin 0 | Some m \<Rightarrow> overall_completeness m)
       \<and> assess_outlier_rate a =
           (case outliers (analysis_results a) of
              None \<Rightarrow> Fin 0 | Some rep \<Rightarrow> percentage rep)
       \<and> (0 \<le> c \<and> c \<le> 100 \<and> 0 \<le> r \<and> r \<le> 100 \<longrightarrow>
            0 \<le> 7 / 10 * c + 3 / 10 * (100 - r) \<and> 7 / 10 * c + 3 / 10 * (100 - r) \<le> 100)
       \<and> (c = 100 \<and> r = 0 \<longrightarrow> quality_score (get_quality_score a) = Fin 100)"
proof -
  have score: "get_quality_score a =
           \<lparr>completeness = Fin c, outlier_rate = Fin r,
            quality_score = Fin (7 / 10 * c + 3 / 10 * (100 - r))\<rparr>"
    using assms by (simp add: get_quality_score_def pf_sub_def algebra_simps)
  have absent_c: "assess_completeness a =
           (case missing_values (analysis_results a) of
              None \<Rightarrow> Fin 0 | Some m \<Rightarrow> overall_completeness m)"
    by (simp add: assess_completeness_def split: option.split)
  have absent_r: "assess_outlier_rate a =
           (case outliers (analysis_results a) of
              None \<Rightarrow> Fin 0 | Some rep \<Rightarrow> percentage rep)"
    by (simp add: assess_outlier_rate_def split: option.split)
  have bounds: "0 \<le> c \<and> c \<le> 100 \<and> 0 \<le> r \<and> r \<le> 100 \<longrightarrow>
            0 \<le> 7 / 10 * c + 3 / 10 * (100 - r) \<and> 7 / 10 * c + 3 / 10 * (100 - r) \<le> 100"
    by argo
  have full: "c = 100 \<and> r = 0 \<longrightarrow> quality_score (get_quality_score a) = Fin 100"
    using score by simp
  from score absent_c absent_r bounds full show ?thesis by blast
qed

theorem quality_score_formula_witness:
  "assess_completeness scored = Fin 100 \<and> assess_outlier_rate scored = Fin 0
   \<and> get_quality_score scored =
       \<lparr>completeness = Fin 100, outlier_rate = Fin 0, quality_score = Fin 100\<rparr>"
proof -
  have c: "assess_completeness scored = Fin 100"
    by (simp add: assess_completeness_def scored_def)
  have r: "assess_outlier_rate scored = Fin 0"
    by (simp add: assess_outlier_rate_def scored_def)
  from quality_score_formula [OF c r] c r show ?thesis by simp
qed

section \<open>The scenario of the specification\<close>

lemmas clean_eval = clean_data_def loaded_def columns_def key_columns_def non_negative_cols_def
  getcol_def isna_sum_def series_median_def has_text_def median_def fillna_def setitem_def
  series_lt_def loc_assign_def marker_column_def Let_def

text \<open>
  Claim C1, as stated: on the scenario table \<^verbatim>\<open>clean_data\<close> yields the GHI column
  [100, 100, 0]. It does not: the median is taken over the non-missing GHI values
  100 and -5 before the clamping, so the missing cell becomes 47.5.
\<close>

theorem scenario_ghi_counterexample:
  "cleaned_column scenario ''GHI'' \<noteq> Inr [Num 100, Num 100, Num 0]"
  by (simp add: cleaned_column_def clean_eval scenario_def)

text \<open>
  Claim C1, amended: on the scenario table \<^verbatim>\<open>clean_data\<close> yields the GHI column
  [100, 47.5, 0] (the missing entry imputed with the median of 100 and -5, computed
  before any overwrite; the negative entry clamped to 0), and
  \<^verbatim>\<open>analyze_missing_values\<close> reports for GHI the missing count 1 and the missing
  percentage 100/3, which is 33.33 to two decimals.
\<close>

theorem scenario_cleaned_and_missing:
  "cleaned_column scenario ''GHI'' = Inr [Num 100, Num (95 / 2), Num 0]
   \<and> map_sum id fst (analyze_missing_values (loaded scenario) 5) =
       Inr \<lparr>missing_count = [(''GHI'', 1), (''DNI'', 0), (''Country'', 0)],
            missing_percent = [(''GHI'', Fin (100 / 3)), (''DNI'', Fin 0), (''Country'', Fin 0)],
            critical_columns = [''GHI''], overall_completeness = Fin (800 / 9),
            threshold = 5\<rparr>
   \<and> \<bar>100 / 3 - 33.33\<bar> < (0.005 :: real)"
  by (simp add: cleaned_column_def clean_eval scenario_def analyze_missing_values_def pf_sub_def)

section \<open>Missing values\<close>

lemma length_filter_eq_count: "length (filter (\<lambda>e. e = y) xs) = count_list xs y"
  by (induction xs) auto

lemma isna_sum_count: "isna_sum c = count_list (cells c) Missing"
  by (simp add: isna_sum_def length_filter_eq_count)

lemma isna_sum_le: "isna_sum c \<le> length (cells c)"
  by (simp add: isna_sum_def)

lemma wf_table_length: "wf_table T \<Longrightarrow> (n, c) \<in> set (cols T) \<Longrightarrow> length (cells c) = nrows T"
  by (auto simp: wf_table_def wf_column_def list_all_iff)

lemma total_missing_le:
  "\<forall>nc \<in> set cs. length (cells (snd nc)) = r \<Longrightarrow>
   sum_list (map (\<lambda>nc. isna_sum (snd nc)) cs) \<le> r * length cs"
proof (induction cs)
  case Nil
  then show ?case by simp
next
  case (Cons a cs)
  have "isna_sum (snd a) \<le> r" using Cons.prems isna_sum_le [of "snd a"] by simp
  moreover have "sum_list (map (\<lambda>nc. isna_sum (snd nc)) cs) \<le> r * length cs"
    using Cons by simp
  ultimately show ?case by simp
qed

text \<open>
  Claim C2, as stated, promises percentages in [0, 100] for every loaded table. A file
  with a header and no data row loads as a table with zero rows; every division is then
  0/0, and both the per-column percentage and the overall completeness are NaN.
\<close>

theorem header_only_percent_counterexample:
  "map_sum id fst (analyze_missing_values (loaded header_only) 5) =
       Inr \<lparr>missing_count = [(''GHI'', 0)], missing_percent = [(''GHI'', NaN)],
            critical_columns = [], overall_completeness = NaN, threshold = 5\<rparr>
   \<and> \<not> in_percent_range NaN"
  by (simp add: analyze_missing_values_def loaded_def header_only_def isna_sum_def pf_sub_def
      in_percent_range_def Let_def)

text \<open>
  Claim C2, amended: for every loaded table with at least one row and one column, and
  every threshold, \<^verbatim>\<open>analyze_missing_values\<close> returns, per column, the number of missing
  cells and that number / row count * 100, which lies in [0, 100]; the critical columns
  are exactly the columns whose percentage strictly exceeds the threshold, in column
  order; the overall completeness is 100 - (all missing cells / (rows * columns)) * 100,
  also in [0, 100]; and the report is stored under \<^verbatim>\<open>'missing_values'\<close>.
\<close>

theorem missing_values_report:
  assumes loaded: "raw_data self = Some T" and wf: "wf_table T"
    and rows: "0 < nrows T" and nonempty: "cols T \<noteq> []"
  shows "case analyze_missing_values self thr of
           Inl e \<Rightarrow> False
         | Inr (rep, self') \<Rightarrow>
             missing_count rep = map (\<lambda>(n, c). (n, count_list (cells c) Missing)) (cols T)
           \<and> missing_percent rep = map (\<lambda>(n, c). (n, Fin (percent_of (nrows T) c))) (cols T)
           \<and> list_all (\<lambda>(n, p). in_percent_range p) (missing_percent rep)
           \<and> critical_columns rep =
               map fst (filter (\<lambda>(n, c). thr < percent_of (nrows T) c) (cols T))
           \<and> overall_completeness rep =
               Fin (100 - real (sum_list (map (\<lambda>(n, c). count_list (cells c) Missing) (cols T)))
                          / real (nrows T * length (cols T)) * 100)
           \<and> in_percent_range (overall_completeness rep)
           \<and> self' = self\<lparr>analysis_results := (analysis_results self)\<lparr>missing_values := Some rep\<rparr>\<rparr>"
proof -
  define mcount where "mcount = map (\<lambda>(n, c). (n, isna_sum c)) (cols T)"
  define mpercent where
    "mpercent = map (\<lambda>(n, k). (n, pf_scale (pf_div (real k) (real (nrows T))) 100)) mcount"
  define critical where "critical = map fst (filter (\<lambda>(n, p). pf_gt p thr) mpercent)"
  define overall where
    "overall = pf_sub (Fin 100)
       (pf_scale (pf_div (real (sum_list (map snd mcount)))
                         (real (nrows T * length (cols T)))) 100)"
  define rep where
    "rep = \<lparr>missing_count = mcount, missing_percent = mpercent, critical_columns = critical,
            overall_completeness = overall, threshold = thr\<rparr>"
  have run: "analyze_missing_values self thr =
      Inr (rep, self\<lparr>analysis_results := (analysis_results self)\<lparr>missing_values := Some rep\<rparr>\<rparr>)"
    unfolding analyze_missing_values_def rep_def overall_def critical_def mpercent_def mcount_def
    by (simp only: loaded option.case Let_def)
  have cnt: "mcount = map (\<lambda>(n, c). (n, count_list (cells c) Missing)) (cols T)"
    unfolding mcount_def by (simp add: isna_sum_count)
  have pct: "mpercent = map (\<lambda>(n, c). (n, Fin (percent_of (nrows T) c))) (cols T)"
    unfolding mpercent_def cnt using rows by (auto simp: percent_of_def)
  have rng: "list_all (\<lambda>(n, p). in_percent_range p) mpercent"
  proof -
    have "in_percent_range (Fin (percent_of (nrows T) c))" if "(n, c) \<in> set (cols T)" for n c
    proof -
      have "count_list (cells c) Missing \<le> nrows T"
        using isna_sum_le [of c] wf_table_length [OF wf that] by (simp add: isna_sum_count)
      then have "real (count_list (cells c) Missing) \<le> real (nrows T)"
        by simp
      then show ?thesis
        using rows by (simp add: in_percent_range_def percent_of_def field_simps)
    qed
    then show ?thesis unfolding pct by (auto simp: list_all_iff)
  qed
  have crit: "critical = map fst (filter (\<lambda>(n, c). thr < percent_of (nrows T) c) (cols T))"
    unfolding critical_def pct by (induction "cols T") (auto simp: filter_map comp_def split_def)
  have tot: "sum_list (map snd mcount) =
      sum_list (map (\<lambda>(n, c). count_list (cells c) Missing) (cols T))"
    unfolding cnt by (simp add: comp_def split_def)
  have cells_pos: "0 < nrows T * length (cols T)"
    using rows nonempty by simp
  have "\<forall>nc \<in> set (cols T). length (cells (snd nc)) = nrows T"
    using wf_table_length [OF wf] by auto
  then have tot_le: "sum_list (map snd mcount) \<le> nrows T * length (cols T)"
    using total_missing_le [of "cols T" "nrows T"]
    unfolding mcount_def by (simp add: comp_def split_def)
  have ov: "overall = Fin (100 - real (sum_list (map snd mcount))
                             / real (nrows T * length (cols T)) * 100)"
    unfolding overall_def using cells_pos by (simp add: pf_sub_def)
  have ov_rng: "in_percent_range overall"
  proof -
    have "real (sum_list (map snd mcount)) \<le> real (nrows T * length (cols T))"
      using tot_le by (simp del: of_nat_mult)
    moreover have "0 < real (nrows T * length (cols T))"
      using cells_pos by (simp del: of_nat_mult)
    ultimately have "real (sum_list (map snd mcount)) / real (nrows T * length (cols T)) * 100 \<le> 100"
      by (simp add: field_simps del: of_nat_mult)
    moreover have "0 \<le> real (sum_list (map snd mcount)) / real (nrows T * length (cols T)) * 100"
      by (simp del: of_nat_mult)
    ultimately show ?thesis unfolding ov by (simp add: in_percent_range_def del: of_nat_mult)
  qed
  have sel: "missing_count rep = mcount" "missing_percent rep = mpercent"
    "critical_columns rep = critical" "overall_completeness rep = overall"
    by (simp_all add: rep_def)
  show ?thesis
    unfolding run sum.case prod.case sel
    using cnt pct rng crit ov [unfolded tot] ov_rng by (intro conjI) (assumption | rule refl)+
qed

theorem missing_values_report_witness:
  "raw_data (loaded scenario) = Some scenario \<and> wf_table scenario
   \<and> 0 < nrows scenario \<and> cols scenario \<noteq> []
   \<and> (case analyze_missing_values (loaded scenario) 5 of
         Inl e \<Rightarrow> False
       | Inr (rep, self') \<Rightarrow>
           critical_columns rep = [''GHI'']
         \<and> in_percent_range (overall_completeness rep))"
proof -
  have l: "raw_data (loaded scenario) = Some scenario"
    by (simp add: loaded_def)
  have w: "wf_table scenario"
    by (simp add: wf_table_def wf_column_def columns_def has_text_def scenario_def)
  have r: "0 < nrows scenario" and c: "cols scenario \<noteq> []"
    by (simp_all add: scenario_def)
  have "[n. (n, c) \<leftarrow> cols scenario, 5 < percent_of (nrows scenario) c] = [''GHI'']"
    by (simp add: scenario_def percent_of_def)
  then have crit: "map fst (filter (\<lambda>(n, c). 5 < percent_of (nrows scenario) c) (cols scenario)) = [''GHI'']"
    by (simp add: scenario_def percent_of_def)
  from missing_values_report [OF l w r c, of 5] crit l w r c show ?thesis
    by (auto split: sum.splits)
qed

section \<open>Outlier detection\<close>

lemma getitem_cols_ok:
  "set ns \<subseteq> fst ` set cs \<Longrightarrow>
   getitem_cols cs ns = Inr (map (\<lambda>n. (n, the (map_of cs n))) ns)"
proof (induction ns)
  case Nil
  then show ?case by simp
next
  case (Cons n ns)
  then have "map_of cs n \<noteq> None" by (simp add: map_of_eq_None_iff)
  then obtain c where "map_of cs n = Some c" by blast
  with Cons show ?case by simp
qed

lemma available_subset:
  "set (filter (\<lambda>col. col \<in> set (columns T)) requested) \<subseteq> fst ` set (cols T)"
  by (auto simp: columns_def)

lemma getitem_available:
  "getitem T (filter (\<lambda>col. col \<in> set (columns T)) requested) =
     Inr \<lparr>nrows = nrows T,
          cols = map (\<lambda>n. (n, the (map_of (cols T) n)))
                   (filter (\<lambda>col. col \<in> set (columns T)) requested)\<rparr>"
  by (simp add: getitem_def getitem_cols_ok [OF available_subset])

lemma wf_distinct: "wf_table T \<Longrightarrow> distinct (map fst (cols T))"
  by (simp add: wf_table_def columns_def)

lemma wf_numeric_no_text:
  "wf_table T \<Longrightarrow> (n, c) \<in> set (cols T) \<Longrightarrow> dtype c = Numeric \<Longrightarrow> \<not> has_text c"
  by (auto simp: wf_table_def wf_column_def list_all_iff)

lemma foldl_or_nth:
  "\<forall>b \<in> set m. length b = length acc \<Longrightarrow>
   length (foldl (\<lambda>acc b. map2 (\<or>) acc b) acc m) = length acc
   \<and> (\<forall>i < length acc. foldl (\<lambda>acc b. map2 (\<or>) acc b) acc m ! i = (acc ! i \<or> (\<exists>b \<in> set m. b ! i)))"
proof (induction m arbitrary: acc)
  case Nil
  then show ?case by simp
next
  case (Cons b m)
  let ?acc = "map2 (\<or>) acc b"
  have len: "length ?acc = length acc" using Cons.prems by simp
  have "\<forall>b' \<in> set m. length b' = length ?acc" using Cons.prems len by simp
  from Cons.IH [OF this] len
  have IH: "length (foldl (\<lambda>acc b. map2 (\<or>) acc b) ?acc m) = length acc"
    "\<forall>i < length acc. foldl (\<lambda>acc b. map2 (\<or>) acc b) ?acc m ! i = (?acc ! i \<or> (\<exists>b \<in> set m. b ! i))"
    by simp_all
  have "?acc ! i = (acc ! i \<or> b ! i)" if "i < length acc" for i
    using that Cons.prems by simp
  with IH show ?case by auto
qed

lemma any_axis1_nth:
  assumes "\<forall>b \<in> set m. length b = n"
  shows "length (any_axis1 n m) = n"
    and "i < n \<Longrightarrow> any_axis1 n m ! i = (\<exists>b \<in> set m. b ! i)"
  using foldl_or_nth [of m "replicate n False"] assms by (simp_all add: any_axis1_def)

lemma nums_mem: "x \<in> set (nums cs) \<longleftrightarrow> Num x \<in> set cs"
  by (induction cs rule: nums.induct) auto

lemma pstdev_zero:
  assumes "pstdev vs = 0" and "x \<in> set vs"
  shows "x = mean vs"
proof -
  from assms(2) have n: "0 < length vs" by (cases vs) auto
  from assms(1) have "sum_list (map (\<lambda>x. (x - mean vs)\<^sup>2) vs) / real (length vs) = 0"
    by (simp add: pstdev_def)
  with n have "sum_list (map (\<lambda>x. (x - mean vs)\<^sup>2) vs) = 0" by simp
  moreover have "\<And>y. y \<in> set (map (\<lambda>x. (x - mean vs)\<^sup>2) vs) \<Longrightarrow> 0 \<le> y" by auto
  ultimately have "\<forall>y \<in> set (map (\<lambda>x. (x - mean vs)\<^sup>2) vs). y = 0"
    by (simp only: sum_list_nonneg_eq_0_iff)
  with assms(2) have "(x - mean vs)\<^sup>2 = 0" by auto
  then show ?thesis by simp
qed

lemma length_zscore_col: "length (zscore_col c) = length (cells c)"
  by (simp add: zscore_col_def Let_def)

lemma flag_iff_zscore_of:
  assumes "i < length (cells c)"
  shows "pf_gt (pf_abs (zscore_col c ! i)) t \<longleftrightarrow> (\<exists>z. zscore_of c i = Some z \<and> t < \<bar>z\<bar>)"
proof (cases "cells c ! i")
  case (Num x)
  with assms have "Num x \<in> set (cells c)" by (metis nth_mem)
  then have mem: "x \<in> set (nums (cells c))" by (simp add: nums_mem)
  then have ne: "nums (cells c) \<noteq> []" by auto
  show ?thesis
  proof (cases "pstdev (nums (cells c)) = 0")
    case True
    have "x = mean (nums (cells c))" by (rule pstdev_zero [OF True mem])
    with True Num assms ne show ?thesis
      by (simp add: zscore_col_def zscore_of_def Let_def)
  next
    case False
    with Num assms ne show ?thesis
      by (simp add: zscore_col_def zscore_of_def Let_def)
  qed
next
  case (Txt s)
  with assms show ?thesis by (simp add: zscore_col_def zscore_of_def Let_def)
next
  case Missing
  with assms show ?thesis by (simp add: zscore_col_def zscore_of_def Let_def)
qed


lemmas outlier_eval = detect_outliers_def loaded_def columns_def getitem_def zscore_def
  zscore_col_def has_text_def mean_def pstdev_def any_axis1_def Let_def eval_nat_numeral

lemma spiky_run:
  "map_sum id fst (detect_outliers (loaded spiky) [''GHI'', ''Wind''] 1) =
     Inr [False, False, False, False, True, False]"
  by (simp add: outlier_eval spiky_def)

text \<open>
  Claim C3, as stated, lets the requested list be any list with at least one existing
  column. When an existing requested column holds text, the z-score arithmetic of the
  library raises \<^verbatim>\<open>TypeError\<close> and no vector is returned: the Country column of the
  scenario table.
\<close>

theorem text_column_outliers_counterexample:
  "detect_outliers (loaded scenario) [''Country''] 3 = Inl TypeError"
  by (simp add: outlier_eval scenario_def)

text \<open>
  Claim C3, amended: for every loaded table, every requested column list of which at
  least one column exists in the table and whose existing columns are all numeric, and
  every threshold \<open>t\<close>, \<^verbatim>\<open>detect_outliers\<close> returns a boolean vector with exactly one
  entry per row; a row's entry is true if and only if for at least one existing requested
  column the magnitude of that row's z-score exceeds \<open>t\<close>; a row whose requested cells are
  all missing is not flagged; and the vector, its count of true entries and the
  percentage are stored under \<^verbatim>\<open>'outliers'\<close>.
\<close>

theorem detect_outliers_mask:
  assumes ld: "raw_data self = Some T" and wf: "wf_table T"
    and ex: "\<exists>n \<in> set requested. n \<in> set (columns T)"
    and num: "\<forall>nc \<in> set (cols T). fst nc \<in> set requested \<longrightarrow> dtype (snd nc) = Numeric"
  shows "case detect_outliers self requested t of
           Inl e \<Rightarrow> False
         | Inr (flagged, self') \<Rightarrow>
             length flagged = nrows T
           \<and> (\<forall>i < nrows T. flagged ! i \<longleftrightarrow>
                 (\<exists>nc \<in> set (cols T). fst nc \<in> set requested
                    \<and> (\<exists>z. zscore_of (snd nc) i = Some z \<and> t < \<bar>z\<bar>)))
           \<and> (\<forall>i < nrows T.
                 (\<forall>nc \<in> set (cols T). fst nc \<in> set requested \<longrightarrow> cells (snd nc) ! i = Missing)
                 \<longrightarrow> \<not> flagged ! i)
           \<and> outliers (analysis_results self') =
               Some \<lparr>outlier_mask = flagged, outlier_count = length (filter (\<lambda>b. b) flagged),
                     percentage = pf_scale (pf_div (real (length (filter (\<lambda>b. b) flagged)))
                                                  (real (nrows T))) 100\<rparr>"
proof -
  define available where "available = filter (\<lambda>col. col \<in> set (columns T)) requested"
  define col where "col n = the (map_of (cols T) n)" for n
  define sub where "sub = \<lparr>nrows = nrows T, cols = map (\<lambda>n. (n, col n)) available\<rparr>"
  define zs where "zs = map (\<lambda>nc. zscore_col (snd nc)) (cols sub)"
  define flags where "flags = map (map (\<lambda>z. pf_gt z t)) (map (map pf_abs) zs)"
  define flagged where "flagged = any_axis1 (nrows T) flags"
  define report where
    "report = \<lparr>outlier_mask = flagged, outlier_count = length (filter (\<lambda>b. b) flagged),
               percentage = pf_scale (pf_div (real (length (filter (\<lambda>b. b) flagged)))
                                            (real (nrows T))) 100\<rparr>"
  have av: "available \<noteq> []"
    using ex by (auto simp: available_def filter_empty_conv)
  have gi: "getitem T available = Inr sub"
    unfolding available_def sub_def col_def by (rule getitem_available)
  have dist: "distinct (map fst (cols T))" by (rule wf_distinct [OF wf])
  have look: "(n, col n) \<in> set (cols T) \<and> n \<in> set requested" if "n \<in> set available" for n
  proof -
    from that have "n \<in> fst ` set (cols T)" "n \<in> set requested"
      by (auto simp: available_def columns_def)
    then obtain c where "(n, c) \<in> set (cols T)" by auto
    with dist have "map_of (cols T) n = Some c" by simp
    then have "col n = c" by (simp add: col_def)
    with \<open>(n, c) \<in> set (cols T)\<close> \<open>n \<in> set requested\<close> show ?thesis by simp
  qed
  have conv: "n \<in> set available \<and> col n = c" if "(n, c) \<in> set (cols T)" "n \<in> set requested" for n c
  proof -
    from that dist have "map_of (cols T) n = Some c" by simp
    moreover from that have "n \<in> set available"
      by (force simp: available_def columns_def)
    ultimately show ?thesis by (simp add: col_def)
  qed
  have notext: "\<not> list_ex (\<lambda>nc. has_text (snd nc)) (cols sub)"
  proof -
    have "\<not> has_text (col n)" if "n \<in> set available" for n
    proof -
      from look [OF that] have m: "(n, col n) \<in> set (cols T)" and r: "n \<in> set requested" by simp_all
      with num have "dtype (col n) = Numeric" by force
      then show ?thesis by (rule wf_numeric_no_text [OF wf m])
    qed
    then show ?thesis by (auto simp: sub_def list_ex_iff)
  qed
  have zz: "zscore sub = Inr zs"
    using notext by (simp add: zscore_def zs_def)
  have run: "detect_outliers self requested t =
      Inr (flagged, self\<lparr>analysis_results := (analysis_results self)\<lparr>outliers := Some report\<rparr>\<rparr>)"
    unfolding detect_outliers_def ld option.case Let_def available_def [symmetric]
    using av gi zz by (simp add: flagged_def flags_def report_def sub_def)
  have flags_set: "set flags = (\<lambda>n. map (\<lambda>z. pf_gt (pf_abs z) t) (zscore_col (col n))) ` set available"
    by (auto simp: flags_def zs_def sub_def comp_def)
  have len_col: "length (cells (col n)) = nrows T" if "n \<in> set available" for n
    using look [OF that] wf_table_length [OF wf] by blast
  have rows: "\<forall>b \<in> set flags. length b = nrows T"
    unfolding flags_set by (auto simp: length_zscore_col len_col)
  have len: "length flagged = nrows T"
    unfolding flagged_def by (rule any_axis1_nth(1) [OF rows])
  have nth: "flagged ! i \<longleftrightarrow>
       (\<exists>nc \<in> set (cols T). fst nc \<in> set requested
           \<and> (\<exists>z. zscore_of (snd nc) i = Some z \<and> t < \<bar>z\<bar>))" if i: "i < nrows T" for i
  proof -
    have "flagged ! i \<longleftrightarrow> (\<exists>b \<in> set flags. b ! i)"
      unfolding flagged_def by (rule any_axis1_nth(2) [OF rows i])
    also have "\<dots> \<longleftrightarrow> (\<exists>n \<in> set available. pf_gt (pf_abs (zscore_col (col n) ! i)) t)"
      unfolding flags_set using i by (auto simp: length_zscore_col len_col)
    also have "\<dots> \<longleftrightarrow> (\<exists>n \<in> set available. \<exists>z. zscore_of (col n) i = Some z \<and> t < \<bar>z\<bar>)"
      using i by (auto simp: flag_iff_zscore_of len_col)
    also have "\<dots> \<longleftrightarrow> (\<exists>nc \<in> set (cols T). fst nc \<in> set requested
           \<and> (\<exists>z. zscore_of (snd nc) i = Some z \<and> t < \<bar>z\<bar>))"
    proof
      assume "\<exists>n \<in> set available. \<exists>z. zscore_of (col n) i = Some z \<and> t < \<bar>z\<bar>"
      then obtain n z where n: "n \<in> set available" and z: "zscore_of (col n) i = Some z" "t < \<bar>z\<bar>"
        by blast
      from look [OF n] z show "\<exists>nc \<in> set (cols T). fst nc \<in> set requested
           \<and> (\<exists>z. zscore_of (snd nc) i = Some z \<and> t < \<bar>z\<bar>)"
        by (intro bexI [of _ "(n, col n)"]) auto
    next
      assume "\<exists>nc \<in> set (cols T). fst nc \<in> set requested
           \<and> (\<exists>z. zscore_of (snd nc) i = Some z \<and> t < \<bar>z\<bar>)"
      then obtain n c z where nc: "(n, c) \<in> set (cols T)" "n \<in> set requested"
        and z: "zscore_of c i = Some z" "t < \<bar>z\<bar>" by auto
      from conv [OF nc] z show "\<exists>n \<in> set available. \<exists>z. zscore_of (col n) i = Some z \<and> t < \<bar>z\<bar>"
        by auto
    qed
    finally show ?thesis .
  qed
  have miss: "\<not> flagged ! i" if i: "i < nrows T"
    and m: "\<forall>nc \<in> set (cols T). fst nc \<in> set requested \<longrightarrow> cells (snd nc) ! i = Missing" for i
    using nth [OF i] m by (auto simp: zscore_of_def)
  show ?thesis
    unfolding run sum.case prod.case
    using len nth miss by (simp add: report_def)
qed


theorem detect_outliers_mask_witness:
  "raw_data (loaded spiky) = Some spiky \<and> wf_table spiky
   \<and> (case detect_outliers (loaded spiky) [''GHI'', ''Wind''] 1 of
         Inl e \<Rightarrow> False
       | Inr (flagged, self') \<Rightarrow>
           length flagged = nrows spiky
         \<and> flagged = [False, False, False, False, True, False])"
proof -
  have l: "raw_data (loaded spiky) = Some spiky"
    by (simp add: loaded_def)
  have w: "wf_table spiky"
    by (simp add: wf_table_def wf_column_def columns_def has_text_def spiky_def)
  have e: "\<exists>n \<in> set [''GHI'', ''Wind'']. n \<in> set (columns spiky)"
    by (simp add: columns_def spiky_def)
  have n: "\<forall>nc \<in> set (cols spiky). fst nc \<in> set [''GHI'', ''Wind''] \<longrightarrow> dtype (snd nc) = Numeric"
    by (simp add: spiky_def)
  from detect_outliers_mask [OF l w e n, of 1] spiky_run l w e n show ?thesis
    by (auto split: sum.splits)
qed


text \<open>Raising the threshold can only clear flags, column by column and row by row.\<close>

lemma pf_gt_mono: "t1 \<le> t2 \<Longrightarrow> pf_gt z t2 \<Longrightarrow> pf_gt z t1"
  by (cases z) auto

lemma map2_or_mono:
  assumes "list_all2 (\<longrightarrow>) a2 a1" and "list_all2 (\<longrightarrow>) b2 b1"
  shows "list_all2 (\<longrightarrow>) (map2 (\<or>) a2 b2) (map2 (\<or>) a1 b1)"
  using assms by (auto simp: list_all2_conv_all_nth)

lemma foldl_or_mono:
  "list_all2 (list_all2 (\<longrightarrow>)) M2 M1 \<Longrightarrow> list_all2 (\<longrightarrow>) a2 a1 \<Longrightarrow>
   list_all2 (\<longrightarrow>) (foldl (\<lambda>acc b. map2 (\<or>) acc b) a2 M2) (foldl (\<lambda>acc b. map2 (\<or>) acc b) a1 M1)"
proof (induction M2 M1 arbitrary: a2 a1 rule: list_all2_induct)
  case Nil
  then show ?case by simp
next
  case (Cons b2 M2 b1 M1)
  from Cons.prems Cons.hyps(1) have "list_all2 (\<longrightarrow>) (map2 (\<or>) a2 b2) (map2 (\<or>) a1 b1)"
    by (rule map2_or_mono)
  from Cons.IH [OF this] show ?case by simp
qed

lemma any_axis1_mono:
  "list_all2 (list_all2 (\<longrightarrow>)) M2 M1 \<Longrightarrow> list_all2 (\<longrightarrow>) (any_axis1 n M2) (any_axis1 n M1)"
  unfolding any_axis1_def by (rule foldl_or_mono) (simp_all add: list_all2_conv_all_nth)

lemma count_true_mono:
  "list_all2 (\<longrightarrow>) xs ys \<Longrightarrow> length (filter (\<lambda>b. b) xs) \<le> length (filter (\<lambda>b. b) ys)"
  by (induction xs ys rule: list_all2_induct) auto

lemma flags_mono:
  assumes "t1 \<le> t2"
  shows "list_all2 (list_all2 (\<longrightarrow>))
           (map (map (\<lambda>z. pf_gt z t2)) Z) (map (map (\<lambda>z. pf_gt z t1)) Z)"
  using assms by (auto simp: list_all2_conv_all_nth intro: pf_gt_mono)

text \<open>
  Claim C4. For a fixed analyzer state and requested column list and thresholds
  \<open>t1 < t2\<close>, \<^verbatim>\<open>detect_outliers\<close> either fails for both thresholds with the same
  error or succeeds for both, and then the outlier count stored at \<open>t1\<close> is at least the
  count stored at \<open>t2\<close>.
\<close>

theorem outlier_count_antitone:
  assumes "t1 < t2"
  shows "case (outlier_count_at self requested t1, outlier_count_at self requested t2) of
           (Inr k1, Inr k2) \<Rightarrow> k2 \<le> k1
         | (Inl e1, Inl e2) \<Rightarrow> e1 = e2
         | _ \<Rightarrow> False"
proof (cases "raw_data self")
  case None
  then show ?thesis by (simp add: outlier_count_at_def detect_outliers_def)
next
  case (Some T)
  define available where "available = filter (\<lambda>col. col \<in> set (columns T)) requested"
  show ?thesis
  proof (cases "available = []")
    case True
    with Some show ?thesis
      by (simp add: outlier_count_at_def detect_outliers_def available_def)
  next
    case False
    show ?thesis
    proof (cases "getitem T available")
      case (Inl e)
      with Some False show ?thesis
        by (simp add: outlier_count_at_def detect_outliers_def available_def Let_def)
    next
      case (Inr sub)
      show ?thesis
      proof (cases "zscore sub")
        case (Inl e)
        with Some False Inr show ?thesis
          by (simp add: outlier_count_at_def detect_outliers_def available_def Let_def)
      next
        case zs: (Inr zs)
        let ?m = "\<lambda>t. any_axis1 (nrows T) (map (map (\<lambda>z. pf_gt z t)) (map (map pf_abs) zs))"
        have k: "outlier_count_at self requested t = Inr (length (filter (\<lambda>b. b) (?m t)))" for t
          using Some False Inr zs
          by (simp add: outlier_count_at_def detect_outliers_def available_def Let_def)
        from assms have "t1 \<le> t2" by simp
        then have "list_all2 (\<longrightarrow>) (?m t2) (?m t1)"
          by (intro any_axis1_mono flags_mono)
        then have "length (filter (\<lambda>b. b) (?m t2)) \<le> length (filter (\<lambda>b. b) (?m t1))"
          by (rule count_true_mono)
        then show ?thesis by (simp add: k)
      qed
    qed
  qed
qed

theorem outlier_count_antitone_witness:
  "(1 :: real) < 3
   \<and> outlier_count_at (loaded spiky) [''GHI'', ''Wind''] 1 = Inr 1
   \<and> outlier_count_at (loaded spiky) [''GHI'', ''Wind''] 3 = Inr 0"
proof -
  have lt: "(1 :: real) < 3" by simp
  have a: "outlier_count_at (loaded spiky) [''GHI'', ''Wind''] 1 = Inr 1"
    by (simp add: outlier_count_at_def outlier_eval spiky_def)
  have b: "outlier_count_at (loaded spiky) [''GHI'', ''Wind''] 3 = Inr 0"
    by (simp add: outlier_count_at_def outlier_eval spiky_def)
  from outlier_count_antitone [OF lt, of "loaded spiky" "[''GHI'', ''Wind'']"] lt a b
  show ?thesis by simp
qed

end
